theory Spec2Isabelle
  imports Complex_Main
begin

section \<open>Data model of 3DModel.py\<close>

text \<open>
  The program computes with numpy arrays of float64. The embedding idealises a float as a
  \<^typ>\<open>real\<close>: addition, multiplication, \<open>cos\<close> and \<open>sin\<close> are the exact ones, and the
  only trace of floating point that is kept is the result of a division by zero, which numpy
  returns as \<open>inf\<close> or \<open>nan\<close> (see \<open>true_divide\<close> below).

  A two-dimensional array is the list of its rows. \<open>shape0\<close> and \<open>shape1\<close> are
  \<^verbatim>\<open>m.shape[0]\<close> and \<^verbatim>\<open>m.shape[1]\<close>; an array is rectangular, which \<open>is_array\<close> says
  of a list of rows.
\<close>

datatype error = ZeroDivisionError | ValueError | AssertionError

type_synonym matrix = "real list list"

definition shape0 :: "matrix \<Rightarrow> nat" where
  "shape0 m = length m"

definition shape1 :: "matrix \<Rightarrow> nat" where
  "shape1 m = (case m of [] \<Rightarrow> 0 | r # _ \<Rightarrow> length r)"

definition is_array :: "nat \<Rightarrow> nat \<Rightarrow> matrix \<Rightarrow> bool" where
  "is_array r c m = (length m = r \<and> list_all (\<lambda>row. length row = c) m)"

text \<open>\<^verbatim>\<open>np.eye(n)\<close>: ones on the diagonal, zeros elsewhere.\<close>

definition eye :: "nat \<Rightarrow> matrix" where
  "eye n = map (\<lambda>i. map (\<lambda>j. if i = j then 1 else 0) [0..<n]) [0..<n]"

definition column :: "matrix \<Rightarrow> nat \<Rightarrow> real list" where
  "column m j = map (\<lambda>row. row ! j) m"

definition inner :: "real list \<Rightarrow> real list \<Rightarrow> real" where
  "inner u v = sum_list (map2 (*) u v)"

text \<open>
  The matrix product: entry \<open>(i, j)\<close> is the inner product of row \<open>i\<close> of the left factor
  with column \<open>j\<close> of the right one. \<open>dot\<close> is numpy's checked product (\<^verbatim>\<open>np.dot\<close>, the
  operator \<^verbatim>\<open>@\<close>), which raises \<^verbatim>\<open>ValueError\<close> when the inner dimensions differ.
\<close>

definition mat_mul :: "matrix \<Rightarrow> matrix \<Rightarrow> matrix" where
  "mat_mul a b = map (\<lambda>row. map (\<lambda>j. inner row (column b j)) [0..<shape1 b]) a"

definition dot :: "matrix \<Rightarrow> matrix \<Rightarrow> error + matrix" where
  "dot a b = (if shape1 a = shape0 b then Inr (mat_mul a b) else Inl ValueError)"

text \<open>
  \<^verbatim>\<open>np.linalg.multi_dot(arrays)\<close> is, by its documentation, the value of
  \<^verbatim>\<open>functools.reduce(np.dot, arrays)\<close>, computed in the cheapest bracketing; it raises
  \<^verbatim>\<open>ValueError\<close> on fewer than two arrays.
\<close>

fun multi_dot :: "matrix list \<Rightarrow> error + matrix" where
  "multi_dot [] = Inl ValueError"
| "multi_dot [a] = Inl ValueError"
| "multi_dot (a # as) =
     foldl (\<lambda>acc b. case acc of Inl e \<Rightarrow> Inl e | Inr m \<Rightarrow> dot m b) (Inr a) as"

section \<open>Wire frames\<close>

text \<open>
  A point is a 3-tuple, a line segment a list of two points, a wireframe a list of line
  segments (the source's comment at the head of its wire frames).
\<close>

type_synonym point = "real \<times> real \<times> real"
type_synonym segment = "point list"

definition wireframe :: "segment list \<Rightarrow> bool" where
  "wireframe shape = list_all (\<lambda>e. length e = 2) shape"

definition guide_axes :: "segment list" where
  "guide_axes = [[(-0.75, 0, 0), (0.75, 0, 0)],
                 [(0, -0.75, 0), (0, 0.75, 0)],
                 [(0, 0, -0.75), (0, 0, 0.75)]]"

text \<open>\<^verbatim>\<open>np.array(p)\<close> of a 3-tuple, \<^verbatim>\<open>m.T\<close>, and \<^verbatim>\<open>np.apply_along_axis(f, 0, m)\<close>,
  which applies \<open>f\<close> to every column of \<open>m\<close> and makes the results the columns of its value.\<close>

fun np_array :: "point \<Rightarrow> real list" where
  "np_array (x, y, z) = [x, y, z]"

definition ndarray_T :: "matrix \<Rightarrow> matrix" where
  "ndarray_T m = map (column m) [0..<shape1 m]"

definition apply_along_axis0 :: "(real list \<Rightarrow> real list) \<Rightarrow> matrix \<Rightarrow> matrix" where
  "apply_along_axis0 f m = ndarray_T (map (\<lambda>j. f (column m j)) [0..<shape1 m])"

definition shape_to_hom_matrix :: "segment list \<Rightarrow> matrix" where
  "shape_to_hom_matrix shape0' =
     (let shape = shape0' @ guide_axes;
          m = ndarray_T (map np_array (concat shape))
      in apply_along_axis0 (\<lambda>p. p @ [1]) m)"

section \<open>Transformations\<close>

text \<open>The dictionary \<^verbatim>\<open>global_params\<close>, which the sliders update and the composer reads,
  is passed explicitly.\<close>

record params =
  d :: real
  tx :: real
  ty :: real
  tz :: real
  rx :: real
  ry :: real
  rz :: real

definition global_params :: params where
  "global_params = \<lparr>d = 10, tx = 0, ty = 0, tz = 0, rx = 0, ry = 0, rz = 0\<rparr>"

text \<open>\<^verbatim>\<open>(-1)/d\<close> divides Python numbers: a zero \<open>d\<close> raises \<^verbatim>\<open>ZeroDivisionError\<close>.\<close>

definition perspective :: "real \<Rightarrow> error + matrix" where
  "perspective dv =
     (if dv = 0 then Inl ZeroDivisionError
      else Inr ((eye 4)[2 := [0, 0, 0, 0], 3 := [0, 0, (-1) / dv, 1]]))"

definition hom_rotate_x :: "real \<Rightarrow> matrix" where
  "hom_rotate_x theta =
     (eye 4)[1 := [0, cos theta, - (sin theta), 0], 2 := [0, sin theta, cos theta, 0]]"

definition hom_rotate_y :: "real \<Rightarrow> matrix" where
  "hom_rotate_y theta =
     (eye 4)[0 := [cos theta, 0, sin theta, 0], 2 := [- (sin theta), 0, cos theta, 0]]"

definition hom_rotate_z :: "real \<Rightarrow> matrix" where
  "hom_rotate_z theta =
     (eye 4)[0 := [cos theta, - (sin theta), 0, 0], 1 := [sin theta, cos theta, 0, 0]]"

definition translate :: "real \<Rightarrow> real \<Rightarrow> real \<Rightarrow> matrix" where
  "translate x y z = (eye 4)[0 := [1, 0, 0, x], 1 := [0, 1, 0, y], 2 := [0, 0, 1, z]]"

definition full_transform_matrix :: "params \<Rightarrow> error + matrix" where
  "full_transform_matrix p =
     (case perspective (d p) of
        Inl e \<Rightarrow> Inl e
      | Inr persp \<Rightarrow>
          multi_dot [persp,
                     translate (tx p) (ty p) (tz p),
                     hom_rotate_x (rx p),
                     hom_rotate_y (ry p),
                     hom_rotate_z (rz p)])"

section \<open>Projection\<close>

text \<open>
  The quotient of two numpy floats: a zero divisor raises nothing and gives \<open>inf\<close> or
  \<open>nan\<close>, which is \<open>None\<close> here.
\<close>

definition true_divide :: "real \<Rightarrow> real \<Rightarrow> real option" where
  "true_divide a b = (if b = 0 then None else Some (a / b))"

type_synonym point2d = "real option \<times> real option"

text \<open>The body of the \<^verbatim>\<open>for\<close> loop: the 2D point of column \<open>i\<close>.\<close>

definition divide_column :: "matrix \<Rightarrow> nat \<Rightarrow> point2d" where
  "divide_column m i = (true_divide (m ! 0 ! i) (m ! 3 ! i), true_divide (m ! 1 ! i) (m ! 3 ! i))"

text \<open>The \<^verbatim>\<open>while\<close> loop, from index \<open>j\<close> with \<open>arr2\<close> collected so far. (Its
  \<^verbatim>\<open>print(j)\<close> writes to the console only.)\<close>

function pair_loop :: "point2d list \<Rightarrow> nat \<Rightarrow> (point2d \<times> point2d) list
    \<Rightarrow> (point2d \<times> point2d) list" where
  "pair_loop arr j arr2 =
     (if int j < int (length arr) - 1
      then pair_loop arr (j + 2) (arr2 @ [(arr ! j, arr ! (j + 1))])
      else arr2)"
  by pat_completeness auto
termination
  by (relation "measure (\<lambda>(arr, j, arr2). length arr - j)") auto

definition matrix_to_projection :: "matrix \<Rightarrow> error + (point2d \<times> point2d) list" where
  "matrix_to_projection m =
     (if shape0 m \<noteq> 4 then Inl AssertionError
      else if shape1 m mod 2 \<noteq> 0 then Inl AssertionError
      else Inr (pair_loop (map (divide_column m) [0..<length (m ! 0)]) 0 []))"

definition full_transform :: "params \<Rightarrow> matrix \<Rightarrow> error + (point2d \<times> point2d) list" where
  "full_transform p shape_matrix =
     (case full_transform_matrix p of
        Inl e \<Rightarrow> Inl e
      | Inr t \<Rightarrow>
          (case dot t shape_matrix of
             Inl e \<Rightarrow> Inl e
           | Inr m \<Rightarrow> matrix_to_projection m))"

section \<open>Explicit forms\<close>

lemma upt_4: "[0..<4] = [0, 1, 2, 3]"
  by (simp add: upt_rec)

lemma eye_4: "eye 4 = [[1, 0, 0, 0], [0, 1, 0, 0], [0, 0, 1, 0], [0, 0, 0, 1]]"
  by (simp add: eye_def upt_4)

lemma perspective_rows:
  "dv \<noteq> 0 \<Longrightarrow>
   perspective dv = Inr [[1, 0, 0, 0], [0, 1, 0, 0], [0, 0, 0, 0], [0, 0, - 1 / dv, 1]]"
  by (simp add: perspective_def eye_4)

lemma hom_rotate_x_rows:
  "hom_rotate_x t = [[1, 0, 0, 0], [0, cos t, - sin t, 0], [0, sin t, cos t, 0], [0, 0, 0, 1]]"
  by (simp add: hom_rotate_x_def eye_4)

lemma hom_rotate_y_rows:
  "hom_rotate_y t = [[cos t, 0, sin t, 0], [0, 1, 0, 0], [- sin t, 0, cos t, 0], [0, 0, 0, 1]]"
  by (simp add: hom_rotate_y_def eye_4)

lemma hom_rotate_z_rows:
  "hom_rotate_z t = [[cos t, - sin t, 0, 0], [sin t, cos t, 0, 0], [0, 0, 1, 0], [0, 0, 0, 1]]"
  by (simp add: hom_rotate_z_def eye_4)

lemma translate_rows:
  "translate x y z = [[1, 0, 0, x], [0, 1, 0, y], [0, 0, 1, z], [0, 0, 0, 1]]"
  by (simp add: translate_def eye_4)

lemma mat_mul_4:
  "mat_mul [[a00, a01, a02, a03], [a10, a11, a12, a13],
            [a20, a21, a22, a23], [a30, a31, a32, a33]]
           [[b00, b01, b02, b03], [b10, b11, b12, b13],
            [b20, b21, b22, b23], [b30, b31, b32, b33]] =
   [[a00 * b00 + a01 * b10 + a02 * b20 + a03 * b30,
     a00 * b01 + a01 * b11 + a02 * b21 + a03 * b31,
     a00 * b02 + a01 * b12 + a02 * b22 + a03 * b32,
     a00 * b03 + a01 * b13 + a02 * b23 + a03 * b33],
    [a10 * b00 + a11 * b10 + a12 * b20 + a13 * b30,
     a10 * b01 + a11 * b11 + a12 * b21 + a13 * b31,
     a10 * b02 + a11 * b12 + a12 * b22 + a13 * b32,
     a10 * b03 + a11 * b13 + a12 * b23 + a13 * b33],
    [a20 * b00 + a21 * b10 + a22 * b20 + a23 * b30,
     a20 * b01 + a21 * b11 + a22 * b21 + a23 * b31,
     a20 * b02 + a21 * b12 + a22 * b22 + a23 * b32,
     a20 * b03 + a21 * b13 + a22 * b23 + a23 * b33],
    [a30 * b00 + a31 * b10 + a32 * b20 + a33 * b30,
     a30 * b01 + a31 * b11 + a32 * b21 + a33 * b31,
     a30 * b02 + a31 * b12 + a32 * b22 + a33 * b32,
     a30 * b03 + a31 * b13 + a32 * b23 + a33 * b33]]"
  by (simp add: mat_mul_def shape1_def upt_4 inner_def column_def)

lemma dot_4x4:
  "dot [[a00, a01, a02, a03], r1, r2, r3] [s0, s1, s2, s3] =
   Inr (mat_mul [[a00, a01, a02, a03], r1, r2, r3] [s0, s1, s2, s3])"
  by (simp add: dot_def shape0_def shape1_def)

lemma upt_2: "[0..<2] = [0, 1]"
  by (simp add: upt_rec)

lemma upt_3: "[0..<3] = [0, 1, 2]"
  by (simp add: upt_rec)

lemma replicate_6: "replicate 6 x = [x, x, x, x, x, x]"
  by (simp add: numeral_eq_Suc)

text \<open>
  The product of 4\<times>4 matrices is associative, so the bracketing that \<^verbatim>\<open>multi_dot\<close>
  chooses does not change its value.
\<close>

lemma mat_mul_assoc_4x4:
  assumes "a = [[a00, a01, a02, a03], [a10, a11, a12, a13],
            [a20, a21, a22, a23], [a30, a31, a32, a33]]"
    and "b = [[b00, b01, b02, b03], [b10, b11, b12, b13],
            [b20, b21, b22, b23], [b30, b31, b32, b33]]"
    and "c = [[c00, c01, c02, c03], [c10, c11, c12, c13],
            [c20, c21, c22, c23], [c30, c31, c32, c33]]"
  shows "mat_mul (mat_mul a b) c = mat_mul a (mat_mul b c)"
  unfolding assms mat_mul_4
  by (simp add: algebra_simps)

text \<open>
  The composed matrix for a nonzero \<open>d\<close>: its last column is the translated origin seen
  through the perspective, and its third row is zero.
\<close>

lemma full_transform_matrix_form:
  assumes "d p \<noteq> 0"
  shows "\<exists>a00 a01 a02 a10 a11 a12 a30 a31 a32.
     full_transform_matrix p =
       Inr [[a00, a01, a02, tx p], [a10, a11, a12, ty p], [0, 0, 0, 0],
            [a30, a31, a32, 1 - tz p / d p]]"
  using assms
  by (simp add: full_transform_matrix_def perspective_rows translate_rows
      hom_rotate_x_rows hom_rotate_y_rows hom_rotate_z_rows dot_4x4 mat_mul_4)

lemma inner_zeros: "inner [0, 0, 0, 0] v = 0"
  by (cases v; simp add: inner_def; cases "tl v"; simp; cases "tl (tl v)"; simp;
      cases "tl (tl (tl v))"; simp)

lemma is_array_4:
  "is_array 4 c m \<Longrightarrow> \<exists>r0 r1 r2 r3. m = [r0, r1, r2, r3] \<and> length r0 = c \<and> length r1 = c
     \<and> length r2 = c \<and> length r3 = c"
  by (cases m; simp add: is_array_def; cases "tl m"; simp; cases "tl (tl m)"; simp;
      cases "tl (tl (tl m))"; simp)

subsection \<open>The pairing loop\<close>

lemma pair_loop_step:
  "Suc j < length arr \<Longrightarrow>
   pair_loop arr j arr2 = pair_loop arr (j + 2) (arr2 @ [(arr ! j, arr ! (j + 1))])"
  by (subst pair_loop.simps) simp

lemma pair_loop_stop: "\<not> Suc j < length arr \<Longrightarrow> pair_loop arr j arr2 = arr2"
  by (subst pair_loop.simps) simp

lemma pair_loop_even:
  "length arr = 2 * n \<Longrightarrow> k \<le> n \<Longrightarrow>
   pair_loop arr (2 * k) arr2 = arr2 @ map (\<lambda>i. (arr ! (2 * i), arr ! (2 * i + 1))) [k..<n]"
proof (induction "n - k" arbitrary: k arr2)
  case 0
  then show ?case by (simp add: pair_loop_stop)
next
  case (Suc x)
  then have lt: "k < n" and x: "x = n - Suc k" and le: "Suc k \<le> n" by simp_all
  from lt Suc.prems have "Suc (2 * k) < length arr" by simp
  then have "pair_loop arr (2 * k) arr2 =
      pair_loop arr (2 * Suc k) (arr2 @ [(arr ! (2 * k), arr ! (2 * k + 1))])"
    by (simp add: pair_loop_step)
  also have "\<dots> = (arr2 @ [(arr ! (2 * k), arr ! (2 * k + 1))]) @
      map (\<lambda>i. (arr ! (2 * i), arr ! (2 * i + 1))) [Suc k..<n]"
    by (rule Suc.hyps(1) [OF x Suc.prems(1) le])
  also have "\<dots> = arr2 @ map (\<lambda>i. (arr ! (2 * i), arr ! (2 * i + 1))) [k..<n]"
    using lt by (simp add: upt_conv_Cons)
  finally show ?case .
qed

subsection \<open>The projected origin\<close>

lemma origin_projection:
  assumes "d p \<noteq> 0" and "1 - tz p / d p \<noteq> 0"
  shows "full_transform p [[0, 0], [0, 0], [0, 0], [1, 1]] =
     Inr [((Some (tx p / (1 - tz p / d p)), Some (ty p / (1 - tz p / d p))),
           (Some (tx p / (1 - tz p / d p)), Some (ty p / (1 - tz p / d p))))]"
proof -
  from full_transform_matrix_form [OF assms(1)] obtain a00 a01 a02 a10 a11 a12 a30 a31 a32
    where m: "full_transform_matrix p =
       Inr [[a00, a01, a02, tx p], [a10, a11, a12, ty p], [0, 0, 0, 0],
            [a30, a31, a32, 1 - tz p / d p]]"
    by blast
  let ?w = "1 - tz p / d p"
  have t: "dot [[a00, a01, a02, tx p], [a10, a11, a12, ty p], [0, 0, 0, 0],
            [a30, a31, a32, ?w]] [[0, 0], [0, 0], [0, 0], [1, 1]] =
       Inr [[tx p, tx p], [ty p, ty p], [0, 0], [?w, ?w]]"
    by (simp add: dot_def shape0_def shape1_def mat_mul_def inner_def column_def
        upt_2)
  have "matrix_to_projection [[tx p, tx p], [ty p, ty p], [0, 0], [?w, ?w]] =
      Inr [((Some (tx p / ?w), Some (ty p / ?w)), (Some (tx p / ?w), Some (ty p / ?w)))]"
    using assms(2)
    by (simp add: matrix_to_projection_def shape0_def shape1_def upt_2 divide_column_def
        true_divide_def pair_loop_step pair_loop_stop)
  with m t show ?thesis by (simp add: full_transform_def)
qed

subsection \<open>The rows of the homogeneous matrix\<close>

lemma np_array_nth: "np_array q = [fst q, fst (snd q), snd (snd q)]"
  by (cases q) auto

lemma map_nth_upt: "map (\<lambda>j. f (xs ! j)) [0..<length xs] = map f xs"
  by (rule nth_equalityI) simp_all

lemma shape_to_hom_matrix_rows:
  "shape_to_hom_matrix s =
     (let pts = concat (s @ guide_axes)
      in [map fst pts, map (\<lambda>q. fst (snd q)) pts, map (\<lambda>q. snd (snd q)) pts,
          map (\<lambda>q. 1) pts])"
proof -
  define pts where "pts = concat (s @ guide_axes)"
  have ne: "pts \<noteq> []" by (simp add: pts_def guide_axes_def)
  then obtain q qs where pq: "pts = q # qs" by (cases pts) auto
  let ?m = "[map fst pts, map (\<lambda>q. fst (snd q)) pts, map (\<lambda>q. snd (snd q)) pts]"
  have T: "ndarray_T (map np_array pts) = ?m"
    by (simp add: ndarray_T_def shape1_def pq np_array_nth upt_3 column_def)
  have s1: "shape1 ?m = length pts" by (simp add: shape1_def)
  have "map (\<lambda>j. column ?m j @ [1]) [0..<length pts] =
        map (\<lambda>j. (\<lambda>q. np_array q @ [1]) (pts ! j)) [0..<length pts]"
    by (rule map_cong) (simp_all add: column_def np_array_nth)
  also have "\<dots> = map (\<lambda>q. np_array q @ [1]) pts" by (rule map_nth_upt)
  finally have cols: "map (\<lambda>j. column ?m j @ [1]) [0..<length pts] =
      map (\<lambda>q. np_array q @ [1]) pts" .
  have "apply_along_axis0 (\<lambda>p. p @ [1]) ?m =
      [map fst pts, map (\<lambda>q. fst (snd q)) pts, map (\<lambda>q. snd (snd q)) pts, map (\<lambda>q. 1) pts]"
    unfolding apply_along_axis0_def s1 cols
    by (simp add: ndarray_T_def shape1_def pq np_array_nth upt_4 column_def)
  with T show ?thesis
    by (simp add: shape_to_hom_matrix_def pts_def Let_def)
qed

lemma length_concat_wireframe: "wireframe s \<Longrightarrow> length (concat s) = 2 * length s"
  by (induction s) (simp_all add: wireframe_def)

section \<open>The composer\<close>

text \<open>
  C1. For every parameter state, \<open>full_transform_matrix\<close> returns the product, bracketed
  from the left, of \<open>perspective (d p)\<close>, \<open>translate (tx p) (ty p) (tz p)\<close>,
  \<open>hom_rotate_x (rx p)\<close>, \<open>hom_rotate_y (ry p)\<close> and \<open>hom_rotate_z (rz p)\<close>: none of the
  four checked products fails. Where \<open>perspective\<close> itself raises (\<open>d p = 0\<close>), so does
  the composer.
\<close>

theorem full_transform_matrix_product:
  "full_transform_matrix p =
     (case perspective (d p) of
        Inl e \<Rightarrow> Inl e
      | Inr persp \<Rightarrow>
          Inr (mat_mul (mat_mul (mat_mul (mat_mul persp (translate (tx p) (ty p) (tz p)))
                 (hom_rotate_x (rx p))) (hom_rotate_y (ry p))) (hom_rotate_z (rz p))))"
proof (cases "d p = 0")
  case True
  then show ?thesis by (simp add: full_transform_matrix_def perspective_def)
next
  case False
  then show ?thesis
    by (simp add: full_transform_matrix_def perspective_rows translate_rows
        hom_rotate_x_rows hom_rotate_y_rows hom_rotate_z_rows dot_4x4 mat_mul_4)
qed

text \<open>At \<open>d = 2\<close>, translation \<open>(1, 2, 3)\<close> and no rotation the product is this matrix.\<close>

theorem full_transform_matrix_product_witness:
  "full_transform_matrix \<lparr>d = 2, tx = 1, ty = 2, tz = 3, rx = 0, ry = 0, rz = 0\<rparr> =
     Inr [[1, 0, 0, 1], [0, 1, 0, 2], [0, 0, 0, 0], [0, 0, - (1 / 2), - (1 / 2)]]"
  using full_transform_matrix_product
    [of "\<lparr>d = 2, tx = 1, ty = 2, tz = 3, rx = 0, ry = 0, rz = 0\<rparr>"]
  by (simp add: perspective_rows translate_rows hom_rotate_x_rows hom_rotate_y_rows
      hom_rotate_z_rows mat_mul_4)

text \<open>
  C9. At the defaults of \<open>global_params\<close> (\<open>d = 10\<close>, no translation, no rotation) the
  composed matrix is \<open>perspective 10\<close> alone: the three rotations by \<open>0\<close> and the
  translation by \<open>(0, 0, 0)\<close> are the identity matrix.
\<close>

theorem full_transform_matrix_defaults:
  "d global_params = 10 \<and>
   full_transform_matrix global_params = perspective (d global_params) \<and>
   perspective (d global_params) =
     Inr [[1, 0, 0, 0], [0, 1, 0, 0], [0, 0, 0, 0], [0, 0, - (1 / 10), 1]] \<and>
   hom_rotate_x (rx global_params) = eye 4 \<and>
   hom_rotate_y (ry global_params) = eye 4 \<and>
   hom_rotate_z (rz global_params) = eye 4 \<and>
   translate (tx global_params) (ty global_params) (tz global_params) = eye 4"
  by (simp add: full_transform_matrix_def global_params_def perspective_rows translate_rows
      hom_rotate_x_rows hom_rotate_y_rows hom_rotate_z_rows dot_4x4 mat_mul_4 eye_4)

section \<open>Algebra of the elementary transforms\<close>

text \<open>
  C8. The product of two translations is the translation by the sum of their vectors.
\<close>

theorem translate_compose:
  "dot (translate a b c) (translate a' b' c') = Inr (translate (a + a') (b + b') (c + c'))"
  by (simp add: translate_rows dot_4x4 mat_mul_4)

section \<open>The perspective matrix\<close>

text \<open>
  C3. For every nonzero \<open>dv\<close>, \<open>perspective dv\<close> is a 4\<times>4 matrix whose third row is zero
  and whose fourth row is \<open>[0, 0, -1/dv, 1]\<close>; applied to the homogeneous point
  \<open>(x, y, z, 1)\<close> it gives the fourth coordinate \<open>1 - z/dv\<close>.
\<close>

theorem perspective_divisor:
  assumes "dv \<noteq> 0"
  shows "\<exists>m. perspective dv = Inr m \<and> is_array 4 4 m \<and>
     m ! 2 = [0, 0, 0, 0] \<and> m ! 3 = [0, 0, - 1 / dv, 1] \<and>
     (\<exists>t. dot m [[x], [y], [z], [1]] = Inr t \<and> t ! 3 = [1 - z / dv])"
  using assms
  by (simp add: perspective_rows is_array_def dot_def shape0_def shape1_def mat_mul_def
      inner_def column_def)

text \<open>At \<open>d = 10\<close> the point \<open>(1, 2, 5, 1)\<close> has the divisor \<open>1/2\<close>.\<close>

theorem perspective_divisor_witness:
  "\<exists>m. perspective 10 = Inr m \<and> is_array 4 4 m \<and>
     m ! 2 = [0, 0, 0, 0] \<and> m ! 3 = [0, 0, - 1 / 10, 1] \<and>
     (\<exists>t. dot m [[1], [2], [5], [1]] = Inr t \<and> t ! 3 = [1 / 2])"
  using perspective_divisor [of 10 1 2 5] by simp

text \<open>
  C10. For every parameter state with a nonzero \<open>d\<close>, the third row of the composed matrix
  is zero, and so is the third row of its product with any point matrix of four rows: the
  matrix that \<open>full_transform\<close> hands to \<open>matrix_to_projection\<close>.
\<close>

theorem z_row_zero:
  assumes "d p \<noteq> 0"
  shows "\<exists>m. full_transform_matrix p = Inr m \<and> m ! 2 = [0, 0, 0, 0] \<and>
     (\<forall>b. shape0 b = 4 \<longrightarrow>
        (\<exists>t. dot m b = Inr t \<and> t ! 2 = replicate (shape1 b) 0))"
proof -
  from full_transform_matrix_form [OF assms] obtain r1 r3 a b c e
    where m: "full_transform_matrix p = Inr [[a, b, c, e], r1, [0, 0, 0, 0], r3]"
    by blast
  have "dot [[a, b, c, e], r1, [0, 0, 0, 0], r3] bm =
          Inr (mat_mul [[a, b, c, e], r1, [0, 0, 0, 0], r3] bm)
        \<and> mat_mul [[a, b, c, e], r1, [0, 0, 0, 0], r3] bm ! 2 = replicate (shape1 bm) 0"
    if "shape0 bm = 4" for bm
    using that
    by (simp add: dot_def shape1_def mat_mul_def inner_zeros map_replicate_const)
  with m show ?thesis by simp
qed

theorem z_row_zero_witness:
  "\<exists>m. full_transform_matrix global_params = Inr m \<and> m ! 2 = [0, 0, 0, 0] \<and>
     (\<exists>t. dot m [[1, 1], [1, 1], [0, 0], [1, 2]] = Inr t \<and> t ! 2 = [0, 0])"
proof -
  have "d global_params \<noteq> 0" by (simp add: global_params_def)
  from z_row_zero [OF this] obtain m where
    m: "full_transform_matrix global_params = Inr m" "m ! 2 = [0, 0, 0, 0]" and
    b: "\<forall>b. shape0 b = 4 \<longrightarrow> (\<exists>t. dot m b = Inr t \<and> t ! 2 = replicate (shape1 b) 0)"
    by blast
  have "shape0 [[1, 1], [1, 1], [0, 0], [1, 2::real]] = 4" by (simp add: shape0_def)
  with b have "\<exists>t. dot m [[1, 1], [1, 1], [0, 0], [1, 2]] = Inr t \<and>
      t ! 2 = replicate (shape1 [[1, 1], [1, 1], [0, 0], [1, 2::real]]) 0"
    by blast
  then have "\<exists>t. dot m [[1, 1], [1, 1], [0, 0], [1, 2]] = Inr t \<and> t ! 2 = [0, 0]"
    by (simp add: shape1_def numeral_2_eq_2)
  with m show ?thesis by blast
qed

section \<open>The pivot of rotation\<close>

text \<open>
  C2. Let two parameter states agree on \<open>d\<close>, \<open>tx\<close>, \<open>ty\<close> and \<open>tz\<close>, with \<open>d\<close> nonzero and
  the fourth coordinate \<open>1 - tz/d\<close> of the transformed origin nonzero, whatever their
  rotations. Then the origin \<open>(0, 0, 0, 1)\<close> (here both ends of one segment) is projected
  to the same 2D point in both states, namely \<open>(tx / (1 - tz/d), ty / (1 - tz/d))\<close>.
\<close>

theorem rotation_keeps_origin:
  assumes "d p \<noteq> 0" and "1 - tz p / d p \<noteq> 0"
    and "d q = d p" and "tx q = tx p" and "ty q = ty p" and "tz q = tz p"
  shows "full_transform q [[0, 0], [0, 0], [0, 0], [1, 1]] =
         full_transform p [[0, 0], [0, 0], [0, 0], [1, 1]] \<and>
         full_transform p [[0, 0], [0, 0], [0, 0], [1, 1]] =
           Inr [((Some (tx p / (1 - tz p / d p)), Some (ty p / (1 - tz p / d p))),
                 (Some (tx p / (1 - tz p / d p)), Some (ty p / (1 - tz p / d p))))]"
proof -
  have "d q \<noteq> 0" and "1 - tz q / d q \<noteq> 0" using assms by simp_all
  from origin_projection [OF this] origin_projection [OF assms(1,2)] assms(3-6)
  show ?thesis by simp
qed

theorem rotation_keeps_origin_witness:
  "full_transform \<lparr>d = 10, tx = 1, ty = 2, tz = 5, rx = 1, ry = 2, rz = 3\<rparr>
       [[0, 0], [0, 0], [0, 0], [1, 1]] =
   full_transform \<lparr>d = 10, tx = 1, ty = 2, tz = 5, rx = 0, ry = 0, rz = 0\<rparr>
       [[0, 0], [0, 0], [0, 0], [1, 1]] \<and>
   full_transform \<lparr>d = 10, tx = 1, ty = 2, tz = 5, rx = 0, ry = 0, rz = 0\<rparr>
       [[0, 0], [0, 0], [0, 0], [1, 1]] =
     Inr [((Some 2, Some 4), (Some 2, Some 4))]"
  using rotation_keeps_origin
    [of "\<lparr>d = 10, tx = 1, ty = 2, tz = 5, rx = 0, ry = 0, rz = 0\<rparr>"
        "\<lparr>d = 10, tx = 1, ty = 2, tz = 5, rx = 1, ry = 2, rz = 3\<rparr>"]
  by simp

section \<open>The projector\<close>

text \<open>
  C4. On a point matrix of 4 rows and \<open>2 * n\<close> columns whose fourth row has no zero,
  \<open>matrix_to_projection\<close> returns \<open>n\<close> segments: segment \<open>k\<close> joins the 2D points of
  columns \<open>2 * k\<close> and \<open>2 * k + 1\<close>, and the 2D point of column \<open>i\<close> is
  \<open>(m[0][i] / m[3][i], m[1][i] / m[3][i])\<close>. On the matrix
  \<open>[[1,1],[1,1],[0,0],[1,2]]\<close> it returns the single segment from \<open>(1, 1)\<close> to
  \<open>(1/2, 1/2)\<close>.
\<close>

theorem matrix_to_projection_segments:
  assumes "is_array 4 (2 * n) m" and "list_all (\<lambda>w. w \<noteq> 0) (m ! 3)"
  shows "\<exists>segs. matrix_to_projection m = Inr segs \<and> length segs = n \<and>
     segs = map (\<lambda>k. ((Some (m ! 0 ! (2 * k) / m ! 3 ! (2 * k)),
                        Some (m ! 1 ! (2 * k) / m ! 3 ! (2 * k))),
                       (Some (m ! 0 ! (2 * k + 1) / m ! 3 ! (2 * k + 1)),
                        Some (m ! 1 ! (2 * k + 1) / m ! 3 ! (2 * k + 1))))) [0..<n]"
proof -
  from is_array_4 [OF assms(1)] obtain r0 r1 r2 r3 where
    m: "m = [r0, r1, r2, r3]" and len: "length r0 = 2 * n" "length r3 = 2 * n"
    by blast
  let ?arr = "map (divide_column m) [0..<2 * n]"
  have nz: "r3 ! i \<noteq> 0" if "i < 2 * n" for i
    using assms(2) that len by (simp add: m list_all_length)
  have dc: "divide_column m i = (Some (r0 ! i / r3 ! i), Some (r1 ! i / r3 ! i))"
    if "i < 2 * n" for i
    using nz [OF that] by (simp add: divide_column_def true_divide_def m)
  have "matrix_to_projection m = Inr (pair_loop ?arr 0 [])"
    by (simp add: matrix_to_projection_def shape0_def shape1_def m len)
  also have "pair_loop ?arr 0 [] = map (\<lambda>i. (?arr ! (2 * i), ?arr ! (2 * i + 1))) [0..<n]"
    using pair_loop_even [of ?arr n 0 "[]"] by simp
  also have "\<dots> = map (\<lambda>k. ((Some (m ! 0 ! (2 * k) / m ! 3 ! (2 * k)),
                      Some (m ! 1 ! (2 * k) / m ! 3 ! (2 * k))),
                     (Some (m ! 0 ! (2 * k + 1) / m ! 3 ! (2 * k + 1)),
                      Some (m ! 1 ! (2 * k + 1) / m ! 3 ! (2 * k + 1))))) [0..<n]"
    by (rule map_cong) (simp_all add: dc, simp add: m)
  finally show ?thesis by simp
qed

theorem matrix_to_projection_segments_witness:
  "matrix_to_projection [[1, 1], [1, 1], [0, 0], [1, 2]] =
     Inr [((Some 1, Some 1), (Some (1 / 2), Some (1 / 2)))]"
proof -
  have a: "is_array 4 (2 * 1) [[1, 1], [1, 1], [0, 0], [1, 2::real]]"
    by (simp add: is_array_def)
  have b: "list_all (\<lambda>w. w \<noteq> 0) ([[1, 1], [1, 1], [0, 0], [1, 2::real]] ! 3)"
    by simp
  show ?thesis
    using matrix_to_projection_segments [OF a b] by simp
qed

text \<open>
  C6. \<open>matrix_to_projection\<close> fails, with the error of its two assertions, exactly when its
  argument does not have 4 rows or has an odd number of columns, whatever the entries are;
  on every other argument it returns segments. The assertions are its first two
  statements, ahead of both loops.
\<close>

theorem matrix_to_projection_assertion:
  "(matrix_to_projection m = Inl AssertionError) = (shape0 m \<noteq> 4 \<or> odd (shape1 m)) \<and>
   ((\<exists>segs. matrix_to_projection m = Inr segs) = (shape0 m = 4 \<and> even (shape1 m)))"
  by (auto simp add: matrix_to_projection_def odd_iff_mod_2_eq_one)

text \<open>Three rows; an odd number of columns; and a well-shaped matrix with a zero divisor,
  which is no error.\<close>

theorem matrix_to_projection_assertion_witness:
  "matrix_to_projection [[1, 1], [1, 1], [1, 0]] = Inl AssertionError \<and>
   matrix_to_projection [[1], [1], [0], [0]] = Inl AssertionError \<and>
   (\<exists>segs. matrix_to_projection [[1, 1], [1, 1], [0, 0], [1, 0]] = Inr segs)"
  using matrix_to_projection_assertion [of "[[1, 1], [1, 1], [1, 0]]"]
    matrix_to_projection_assertion [of "[[1], [1], [0], [0]]"]
    matrix_to_projection_assertion [of "[[1, 1], [1, 1], [0, 0], [1, 0]]"]
  by (simp add: shape0_def shape1_def)

section \<open>The geometry model\<close>

text \<open>
  C5. For every wireframe \<open>s\<close> (every segment of two points; the empty list too),
  \<open>shape_to_hom_matrix s\<close> has 4 rows of \<open>2 * (length s + 3)\<close> entries, its fourth row is
  all ones, and its last six columns are the ends of the guide axes along X, Y and Z, in
  this order.
\<close>

theorem shape_to_hom_matrix_shape:
  assumes "wireframe s"
  shows "is_array 4 (2 * (length s + 3)) (shape_to_hom_matrix s) \<and>
     shape_to_hom_matrix s ! 3 = replicate (2 * (length s + 3)) 1 \<and>
     map (drop (2 * length s)) (shape_to_hom_matrix s) =
       [[- 0.75, 0.75, 0, 0, 0, 0],
        [0, 0, - 0.75, 0.75, 0, 0],
        [0, 0, 0, 0, - 0.75, 0.75],
        [1, 1, 1, 1, 1, 1]]"
proof -
  have len: "length (concat s) = 2 * length s"
    by (rule length_concat_wireframe [OF assms])
  have "length (concat (s @ guide_axes)) = 2 * (length s + 3)"
    by (simp add: len guide_axes_def)
  then show ?thesis
    by (simp add: shape_to_hom_matrix_rows Let_def is_array_def map_replicate_const len)
      (simp add: guide_axes_def replicate_6)
qed

text \<open>The empty wireframe gives the matrix of the source's docstring.\<close>

theorem shape_to_hom_matrix_shape_witness:
  "shape_to_hom_matrix [] =
     [[- 0.75, 0.75, 0, 0, 0, 0],
      [0, 0, - 0.75, 0.75, 0, 0],
      [0, 0, 0, 0, - 0.75, 0.75],
      [1, 1, 1, 1, 1, 1]]"
  using shape_to_hom_matrix_shape [of "[]"] by (simp add: wireframe_def)

end
